theory Spec2Isabelle
  imports Complex_Main
begin

section \<open>JavaScript values\<close>

text \<open>
  The values the adapter passes around: request payloads (\<open>options.data\<close>), header values,
  decoded response payloads and the values the host adapter's hooks return. An object is the
  list of its own enumerable properties. A number is the real it denotes; NaN and the
  infinities are left out (a JSON text denotes neither NaN, and the code only ever tests a
  number for being zero).
\<close>

datatype jsval =
    JUndefined
  | JNull
  | JBool bool
  | JNum real
  | JStr string
  | JArr "jsval list"
  | JObj "(string \<times> jsval) list"

text \<open>JavaScript's \<open>ToBoolean\<close>, as used by \<open>if (v)\<close>, \<open>!v\<close>, \<open>a && b\<close> and \<open>a || b\<close>.\<close>

fun truthy :: "jsval \<Rightarrow> bool" where
  "truthy JUndefined = False"
| "truthy JNull = False"
| "truthy (JBool b) = b"
| "truthy (JNum n) = (n \<noteq> 0)"
| "truthy (JStr s) = (s \<noteq> [])"
| "truthy (JArr xs) = True"
| "truthy (JObj kvs) = True"

text \<open>\<open>a || b\<close>: the left operand when it is truthy, the right one otherwise.\<close>

definition js_or :: "jsval \<Rightarrow> jsval \<Rightarrow> jsval" where
  "js_or a b = (if truthy a then a else b)"

text \<open>
  \<open>Object.keys(v).length\<close>: the number of own enumerable properties. A string has one per
  character, an array one per element, a number or a boolean none; the code only tests the
  count for being zero. On \<open>undefined\<close> and
  \<open>null\<close> \<open>Object.keys\<close> throws a TypeError; the only call (line 57) stands under the guard
  \<open>if (options.data)\<close> of line 53, which excludes both (lemma \<open>truthy_not_nullish\<close>).
\<close>

fun object_keys_length :: "jsval \<Rightarrow> nat" where
  "object_keys_length (JObj kvs) = length kvs"
| "object_keys_length (JArr xs) = length xs"
| "object_keys_length (JStr s) = length s"
| "object_keys_length v = 0"

text \<open>\<open>v.k\<close> for a property \<open>k\<close> no prototype defines: \<open>undefined\<close> unless \<open>v\<close> is an object holding it.\<close>

fun get_property :: "jsval \<Rightarrow> string \<Rightarrow> jsval" where
  "get_property (JObj kvs) k = (case map_of kvs k of None \<Rightarrow> JUndefined | Some v \<Rightarrow> v)"
| "get_property v k = JUndefined"

section \<open>Header objects and the heap\<close>

text \<open>
  A plain object used as a header mapping: keys are unique and case-sensitive as supplied.
  Header objects are passed by reference and written in place (\<open>assign\<close> writes into its
  target, line 80 writes one key), so they live in a heap and option bags hold addresses.
\<close>

type_synonym headers_obj = "string \<rightharpoonup> jsval"
type_synonym addr = nat
type_synonym heap = "headers_obj list"

text \<open>\<open>o[k]\<close> on a header object.\<close>

definition header_get :: "headers_obj \<Rightarrow> string \<Rightarrow> jsval" where
  "header_get hs k = (case hs k of None \<Rightarrow> JUndefined | Some v \<Rightarrow> v)"

text \<open>\<open>assign(target, source)\<close> of @ember/polyfills (\<open>Object.assign\<close>): every property of the
  source is written into the target, so the source wins on a common key.\<close>

definition assign :: "headers_obj \<Rightarrow> headers_obj \<Rightarrow> headers_obj" where
  "assign target source = target ++ source"

text \<open>A new object gets the next free address.\<close>

definition alloc :: "heap \<Rightarrow> headers_obj \<Rightarrow> addr \<times> heap" where
  "alloc h obj = (length h, h @ [obj])"

section \<open>Option bags, responses, the adapter and the platform\<close>

text \<open>\<open>requestData\<close> of \<open>ajax\<close>: the url and the method as the caller passed them.\<close>

record request_data =
  req_url :: string
  req_method :: string

text \<open>
  An option bag. \<open>url\<close>, \<open>type\<close>, \<open>data\<close> and \<open>headers\<close> are the fields of
  \<open>JQueryAjaxSettings\<close> the code reads. All are optional there; the parameter type of
  \<open>mungOptionsForFetch\<close>, \<open>JQueryAjaxSettings & { url: string }\<close>, makes \<open>url\<close> a string, so
  the type of \<open>url\<close> is a parameter: \<open>string option\<close> for the caller's bag of
  \<open>ajaxOptions\<close>, \<open>string\<close> for \<open>mungOptionsForFetch\<close>. An absent \<open>data\<close> is \<open>JUndefined\<close>.
  \<open>credentials\<close> and \<open>body\<close> are no fields of \<open>JQueryAjaxSettings\<close>, but object types are
  open and \<open>assign\<close> (line 38) and the spread (line 143) copy every own key of a bag, so a
  bag that carries them hands them on; \<open>None\<close> is an absent key. A \<open>method\<close> key a bag
  carries is overwritten by line 51 and so is left out.
\<close>

record 'u ajax_settings =
  url :: 'u
  type :: "string option"
  data :: jsval
  headers :: "addr option"
  credentials :: "string option"
  body :: "string option"

text \<open>The object \<open>mungOptionsForFetch\<close> returns: the copied bag and the \<open>method\<close> it adds.\<close>

record fetch_options = "string ajax_settings" +
  "method" :: string

text \<open>What the code reads of a fetch \<open>Response\<close>; \<open>resp_text\<close> is what \<open>response.text()\<close>
  resolves to, \<open>resp_headers\<close> the entries \<open>headers.forEach\<close> visits, in order.\<close>

record response =
  status :: int
  ok :: bool
  statusText :: string
  resp_headers :: "(string \<times> string) list option"
  resp_text :: string

text \<open>The host adapter (\<open>DS.RESTAdapter\<close>): its \<open>headers\<close> property and the two hooks called.\<close>

record adapter =
  adapter_headers :: "headers_obj option"
  handleResponse :: "int \<Rightarrow> (string \<rightharpoonup> string) \<Rightarrow> jsval \<Rightarrow> request_data \<Rightarrow> jsval"
  parseErrorResponse :: "jsval \<Rightarrow> jsval"

text \<open>The outcome of \<open>JSON.parse\<close>: a value, or a thrown error that is or is not an instance
  of \<open>SyntaxError\<close>.\<close>

datatype parse_result = Parsed jsval | SyntaxError jsval | OtherError jsval

text \<open>
  What the module imports or takes from the platform, as parameters:
  \<open>serializeQueryParams\<close> (\<open>../utils/serialize-query-params\<close>), \<open>JSON.stringify\<close>,
  \<open>JSON.parse\<close> and \<open>fetch\<close>, which settles with a response or rejects with a reason.
\<close>

record env =
  serializeQueryParams :: "jsval \<Rightarrow> string"
  JSON_stringify :: "jsval \<Rightarrow> string"
  JSON_parse :: "string \<Rightarrow> parse_result"
  fetch :: "string \<Rightarrow> fetch_options \<Rightarrow> heap \<Rightarrow> jsval + response"

text \<open>A settled promise.\<close>

datatype 'a promise = Resolved 'a | Rejected jsval

text \<open>One call of \<open>console.warn\<close>: the message and the value logged with it.\<close>

type_synonym warning = "string \<times> jsval"

section \<open>The functions of \<open>addon/mixins/adapter-fetch.ts\<close>\<close>

text \<open>
  \<open>headersToObject(headers)\<close>, lines 19 to 27. \<open>headersObject[key] = value\<close> on a plain object
  stores the entry, except under the key \<open>__proto__\<close>, where assigning a string is ignored.
\<close>

definition headersToObject :: "(string \<times> string) list option \<Rightarrow> (string \<rightharpoonup> string)" where
  "headersToObject hs =
     (case hs of
        None \<Rightarrow> Map.empty
      | Some entries \<Rightarrow>
          fold (\<lambda>(key, value) headersObject.
                  if key = ''__proto__'' then headersObject else headersObject(key \<mapsto> value))
            entries Map.empty)"

text \<open>
  \<open>mungOptionsForFetch(_options, adapter)\<close>, lines 34 to 84, statement by statement. Line 38
  copies the bag over \<open>{credentials: 'same-origin'}\<close>, so the bag's own \<open>credentials\<close> wins
  and its \<open>body\<close> is carried along. Of the adapter only \<open>adapter.get('headers')\<close> is read.
  The result is the new \<open>options\<close> object and the heap after the writes to header objects.
\<close>

definition mungOptionsForFetch ::
  "env \<Rightarrow> string ajax_settings \<Rightarrow> adapter \<Rightarrow> heap \<Rightarrow> fetch_options \<times> heap" where
  "mungOptionsForFetch e options' adapter h =
     (let options = ajax_settings.extend
                      (options'\<lparr>credentials :=
                         Some (case credentials options' of
                                 None \<Rightarrow> ''same-origin''
                               | Some c \<Rightarrow> c)\<rparr>)
                      (fetch_options.fields []);  \<comment> \<open>\<open>method\<close> is set below\<close>
          adapterHeaders = adapter_headers adapter;
          (options, h) =
             (case adapterHeaders of
                None \<Rightarrow> (options, h)
              | Some ah \<Rightarrow>
                  (case headers options of
                     Some a \<Rightarrow> (options, h[a := assign (h ! a) ah])
                   | None \<Rightarrow>
                       (let (a, h') = alloc h (assign Map.empty ah)
                        in (options\<lparr>headers := Some a\<rparr>, h'))));
          options = options\<lparr>method :=
                      (case type options of
                         None \<Rightarrow> ''GET''
                       | Some t \<Rightarrow> if t \<noteq> [] then t else ''GET'')\<rparr>;
          options =
             (if truthy (data options) then
                (if method options = ''GET'' \<or> method options = ''HEAD'' then
                   (if object_keys_length (data options) \<noteq> 0 then
                      (let queryParamDelimiter =
                             (if CHR ''?'' \<in> set (url options) then ''&'' else ''?'')
                       in options\<lparr>url := url options @ queryParamDelimiter
                                             @ serializeQueryParams e (data options)\<rparr>)
                    else options)
                 else options\<lparr>body := Some (JSON_stringify e (data options))\<rparr>)
              else options)
      in if method options \<noteq> ''GET''
            \<and> (case body options of None \<Rightarrow> False | Some b \<Rightarrow> b \<noteq> [])
            \<and> (case headers options of
                 None \<Rightarrow> True
               | Some a \<Rightarrow> \<not> (truthy (header_get (h ! a) ''Content-Type'')
                              \<or> truthy (header_get (h ! a) ''content-type'')))
         then
           (case headers options of
              None \<Rightarrow>
                (let (a, h') = alloc h [''Content-Type'' \<mapsto> JStr ''application/json; charset=utf-8'']
                 in (options\<lparr>headers := Some a\<rparr>, h'))
            | Some a \<Rightarrow>
                (options, h[a := (h ! a)(''Content-Type'' \<mapsto> JStr ''application/json; charset=utf-8'')]))
         else (options, h))"

text \<open>
  \<open>determineBodyPromise(response, requestData)\<close>, lines 94 to 114: the promise it returns,
  settled, and the warnings it logs.
\<close>

definition determineBodyPromise ::
  "env \<Rightarrow> response \<Rightarrow> request_data \<Rightarrow> jsval promise \<times> warning list" where
  "determineBodyPromise e response requestData =
     (let payload = resp_text response
      in case JSON_parse e payload of
           Parsed v \<Rightarrow> (Resolved v, [])
         | OtherError error \<Rightarrow> (Rejected error, [])
         | SyntaxError error \<Rightarrow>
             (if ok response
                 \<and> (status response = 204 \<or> status response = 205
                      \<or> req_method requestData = ''HEAD'')
              then (Resolved JUndefined, [])
              else (Resolved (JStr payload),
                    [(''This response was unable to be parsed as json.'', JStr payload)])))"

text \<open>
  \<open>ajaxOptions(url, type, options = {})\<close>, lines 140 to 144. The caller's bag is passed by
  reference and written, so the bag after the call is part of the result; \<open>None\<close> is an
  omitted argument, for which the default \<open>{}\<close> is written and dropped.
\<close>

definition ajaxOptions ::
  "env \<Rightarrow> adapter \<Rightarrow> string \<Rightarrow> string \<Rightarrow> (string option) ajax_settings option \<Rightarrow> heap
     \<Rightarrow> fetch_options \<times> (string option) ajax_settings option \<times> heap" where
  "ajaxOptions e adapter url' type' options h =
     (let opts = (case options of
                    None \<Rightarrow> \<lparr>url = None, type = None, data = JUndefined, headers = None,
                             credentials = None, body = None\<rparr>
                  | Some b \<Rightarrow> b);
          opts = opts\<lparr>url := Some url'\<rparr>;
          opts = opts\<lparr>type := Some type'\<rparr>;
          (hash, h') = mungOptionsForFetch e
                         \<lparr>url = url', type = Some type', data = data opts, headers = headers opts,
                          credentials = credentials opts, body = body opts\<rparr>
                         adapter h
      in (hash, map_option (\<lambda>_. opts) options, h'))"

definition ajaxSuccess :: "adapter \<Rightarrow> response \<Rightarrow> jsval \<Rightarrow> request_data \<Rightarrow> jsval promise" where
  "ajaxSuccess adapter response payload requestData =
     (let returnResponse =
            handleResponse adapter (status response) (headersToObject (resp_headers response))
              payload requestData
      in if truthy returnResponse \<and> truthy (get_property returnResponse ''isAdapterError'')
         then Rejected returnResponse
         else Resolved returnResponse)"

definition parseFetchResponseForError :: "response \<Rightarrow> jsval \<Rightarrow> jsval" where
  "parseFetchResponseForError response payload = js_or payload (JStr (statusText response))"

text \<open>\<open>ajaxError\<close>, lines 249 to 270; an omitted \<open>error\<close> argument is \<open>JUndefined\<close>.\<close>

definition ajaxError :: "adapter \<Rightarrow> response \<Rightarrow> jsval \<Rightarrow> request_data \<Rightarrow> jsval \<Rightarrow> jsval" where
  "ajaxError adapter response payload requestData error =
     (if truthy error then error
      else
        (let parsedResponse = parseFetchResponseForError response payload
         in handleResponse adapter (status response) (headersToObject (resp_headers response))
              (js_or (parseErrorResponse adapter parsedResponse) payload) requestData))"

text \<open>
  \<open>ajax(url, type, options)\<close>, lines 152 to 182, with \<open>_ajaxRequest\<close> and \<open>_fetchRequest\<close>
  (lines 189 to 201) inlined: the promise it returns, settled, the warnings logged, the
  caller's bag and the heap after the call.
\<close>

definition ajax ::
  "env \<Rightarrow> adapter \<Rightarrow> string \<Rightarrow> string \<Rightarrow> (string option) ajax_settings option \<Rightarrow> heap
     \<Rightarrow> jsval promise \<times> warning list \<times> (string option) ajax_settings option \<times> heap" where
  "ajax e adapter url' type' options h =
     (let requestData = \<lparr>req_url = url', req_method = type'\<rparr>;
          (hash, options', h') = ajaxOptions e adapter url' type' options h
      in case fetch e (url hash) hash h' of
           Inl error \<Rightarrow> (Rejected error, [], options', h')
         | Inr response \<Rightarrow>
             (case determineBodyPromise e response requestData of
                (Rejected error, ws) \<Rightarrow> (Rejected error, ws, options', h')
              | (Resolved payload, ws) \<Rightarrow>
                  (if ok response
                   then (ajaxSuccess adapter response (js_or payload (JStr [])) requestData,
                         ws, options', h')
                   else (Rejected (ajaxError adapter response payload requestData JUndefined),
                         ws, options', h'))))"


section \<open>Vocabulary of the properties\<close>

text \<open>A reference held by an option bag points into the heap.\<close>

definition valid_ref :: "heap \<Rightarrow> addr option \<Rightarrow> bool" where
  "valid_ref h r = (case r of None \<Rightarrow> True | Some a \<Rightarrow> a < length h)"

text \<open>\<open>options.headers || {}\<close>: the header object a bag refers to, or an empty one.\<close>

definition headers_or_empty :: "heap \<Rightarrow> addr option \<Rightarrow> headers_obj" where
  "headers_or_empty h r = (case r of None \<Rightarrow> Map.empty | Some a \<Rightarrow> h ! a)"

text \<open>The header object after lines 45 to 48: the caller's headers, overlaid with the
  adapter's when the adapter has any.\<close>

definition merged_headers :: "heap \<Rightarrow> addr option \<Rightarrow> headers_obj option \<Rightarrow> headers_obj" where
  "merged_headers h r adapterHeaders =
     (case adapterHeaders of
        None \<Rightarrow> headers_or_empty h r
      | Some ah \<Rightarrow> assign (headers_or_empty h r) ah)"

text \<open>The test of line 77: \<open>headers['Content-Type'] || headers['content-type']\<close> is truthy.\<close>

definition content_type_found :: "headers_obj \<Rightarrow> bool" where
  "content_type_found hs =
     (truthy (header_get hs ''Content-Type'') \<or> truthy (header_get hs ''content-type''))"

text \<open>The test \<open>options.body\<close> of line 75: a body is set and is not the empty string.\<close>

definition has_body :: "fetch_options \<Rightarrow> bool" where
  "has_body options = (case body options of None \<Rightarrow> False | Some b \<Rightarrow> b \<noteq> [])"

text \<open>The key spells \<open>content-type\<close> in some mix of upper and lower case: what a
  case-insensitive comparison of header names accepts.\<close>

definition spells_content_type :: "string \<Rightarrow> bool" where
  "spells_content_type k =
     list_all2 (\<lambda>c (l, u). c = l \<or> c = u) k (zip ''content-type'' ''CONTENT-TYPE'')"

text \<open>
  The blocks of \<open>mungOptionsForFetch\<close> as functions of their own, for the proofs: line 38,
  lines 45 to 48, lines 53 to 69 and lines 73 to 81. Lemma \<open>mung_staged\<close> shows that
  \<open>mungOptionsForFetch\<close> is their composition, by unfolding alone.
\<close>

definition initial_options :: "string ajax_settings \<Rightarrow> fetch_options" where
  "initial_options options' =
     ajax_settings.extend
       (options'\<lparr>credentials :=
          Some (case credentials options' of
                  None \<Rightarrow> ''same-origin''
                | Some c \<Rightarrow> c)\<rparr>)
       (fetch_options.fields [])"

definition merge_adapter_headers ::
  "fetch_options \<Rightarrow> headers_obj option \<Rightarrow> heap \<Rightarrow> fetch_options \<times> heap" where
  "merge_adapter_headers options adapterHeaders h =
             (case adapterHeaders of
                None \<Rightarrow> (options, h)
              | Some ah \<Rightarrow>
                  (case headers options of
                     Some a \<Rightarrow> (options, h[a := assign (h ! a) ah])
                   | None \<Rightarrow>
                       (let (a, h') = alloc h (assign Map.empty ah)
                        in (options\<lparr>headers := Some a\<rparr>, h'))))"

definition attach_data :: "env \<Rightarrow> fetch_options \<Rightarrow> fetch_options" where
  "attach_data e options =
             (if truthy (data options) then
                (if method options = ''GET'' \<or> method options = ''HEAD'' then
                   (if object_keys_length (data options) \<noteq> 0 then
                      (let queryParamDelimiter =
                             (if CHR ''?'' \<in> set (url options) then ''&'' else ''?'')
                       in options\<lparr>url := url options @ queryParamDelimiter
                                             @ serializeQueryParams e (data options)\<rparr>)
                    else options)
                 else options\<lparr>body := Some (JSON_stringify e (data options))\<rparr>)
              else options)"

definition default_content_type :: "fetch_options \<Rightarrow> heap \<Rightarrow> fetch_options \<times> heap" where
  "default_content_type options h =
     (if method options \<noteq> ''GET''
            \<and> (case body options of None \<Rightarrow> False | Some b \<Rightarrow> b \<noteq> [])
            \<and> (case headers options of
                 None \<Rightarrow> True
               | Some a \<Rightarrow> \<not> (truthy (header_get (h ! a) ''Content-Type'')
                              \<or> truthy (header_get (h ! a) ''content-type'')))
         then
           (case headers options of
              None \<Rightarrow>
                (let (a, h') = alloc h [''Content-Type'' \<mapsto> JStr ''application/json; charset=utf-8'']
                 in (options\<lparr>headers := Some a\<rparr>, h'))
            | Some a \<Rightarrow>
                (options, h[a := (h ! a)(''Content-Type'' \<mapsto> JStr ''application/json; charset=utf-8'')]))
         else (options, h))"

section \<open>Example inputs\<close>

text \<open>
  A small world for the concrete instances below. \<open>ex_serializeQueryParams\<close>,
  \<open>ex_stringify\<close> and \<open>ex_parse\<close> stand in for the platform on the handful of values
  used here; \<open>ex_fetch\<close> is a server with a handful of routes.
\<close>

definition ex_serializeQueryParams :: "jsval \<Rightarrow> string" where
  "ex_serializeQueryParams d =
     (case d of
        JObj kvs \<Rightarrow> concat (map (\<lambda>(k, v). k @ ''='' @ (case v of JStr s \<Rightarrow> s | _ \<Rightarrow> [])) kvs)
      | _ \<Rightarrow> [])"

definition ex_stringify :: "jsval \<Rightarrow> string" where
  \<open>ex_stringify d = (if d = JObj [(''name'', JStr ''a'')] then ''{"name":"a"}'' else ''null'')\<close>

definition ex_parse :: "string \<Rightarrow> parse_result" where
  \<open>ex_parse s =
     (if s = ''{"id":1}'' then Parsed (JObj [(''id'', JNum 1)])
      else if s = ''{"errors":"bad"}'' then Parsed (JObj [(''errors'', JStr ''bad'')])
      else if s = ''0'' then Parsed (JNum 0)
      else SyntaxError (JStr ''SyntaxError: Unexpected token''))\<close>

definition ex_response :: "int \<Rightarrow> bool \<Rightarrow> string \<Rightarrow> string \<Rightarrow> response" where
  "ex_response st is_ok st_text txt =
     \<lparr>status = st, ok = is_ok, statusText = st_text,
      resp_headers = Some [(''content-length'', ''0'')], resp_text = txt\<rparr>"

definition ex_widget_response :: response where
  \<open>ex_widget_response = ex_response 200 True ''OK'' ''{"id":1}''\<close>

definition ex_flagged_response :: response where
  \<open>ex_flagged_response = ex_response 200 True ''OK'' ''{"errors":"bad"}''\<close>

definition ex_count_response :: response where
  "ex_count_response = ex_response 200 True ''OK'' ''0''"

definition ex_missing_response :: response where
  "ex_missing_response = ex_response 404 False ''Not Found'' ''not here''"

definition ex_fetch :: "string \<Rightarrow> fetch_options \<Rightarrow> heap \<Rightarrow> jsval + response" where
  "ex_fetch u options h =
     (if u = ''/widgets/1'' \<and> method options = ''DELETE'' then Inr (ex_response 204 True ''No Content'' [])
      else if u = ''/widgets/1'' then Inr ex_widget_response
      else if u = ''/flagged'' then Inr ex_flagged_response
      else if u = ''/count'' then Inr ex_count_response
      else if u = ''/missing'' then Inr ex_missing_response
      else Inl (JStr ''TypeError: Failed to fetch''))"

definition ex_env :: env where
  "ex_env = \<lparr>serializeQueryParams = ex_serializeQueryParams, JSON_stringify = ex_stringify,
             JSON_parse = ex_parse, fetch = ex_fetch\<rparr>"

text \<open>A platform whose \<open>JSON.parse\<close> throws something that is no \<open>SyntaxError\<close>.\<close>

definition ex_env_broken :: env where
  "ex_env_broken = \<lparr>serializeQueryParams = ex_serializeQueryParams, JSON_stringify = ex_stringify,
                    JSON_parse = (\<lambda>s. OtherError (JStr ''RangeError'')), fetch = ex_fetch\<rparr>"

text \<open>A host hook that flags a payload carrying \<open>errors\<close>, whatever the status.\<close>

definition ex_handleResponse :: "int \<Rightarrow> (string \<rightharpoonup> string) \<Rightarrow> jsval \<Rightarrow> request_data \<Rightarrow> jsval" where
  "ex_handleResponse st hs payload requestData =
     (if truthy (get_property payload ''errors'') \<or> \<not> (200 \<le> st \<and> st < 300)
      then JObj [(''isAdapterError'', JBool True), (''payload'', payload)]
      else payload)"

definition ex_adapter :: "headers_obj option \<Rightarrow> adapter" where
  "ex_adapter hs = \<lparr>adapter_headers = hs, handleResponse = ex_handleResponse,
                    parseErrorResponse = (\<lambda>p. p)\<rparr>"

definition ex_settings :: "'u \<Rightarrow> string option \<Rightarrow> jsval \<Rightarrow> addr option \<Rightarrow> 'u ajax_settings" where
  "ex_settings u t d hs =
     \<lparr>url = u, type = t, data = d, headers = hs, credentials = None, body = None\<rparr>"

definition ex_request :: "string \<Rightarrow> string \<Rightarrow> request_data" where
  "ex_request u m = \<lparr>req_url = u, req_method = m\<rparr>"

text \<open>One header object: a heap holding it at address 0, and adapter defaults.\<close>

definition ex_headers :: "string \<Rightarrow> string \<Rightarrow> headers_obj" where
  "ex_headers k v = [k \<mapsto> JStr v]"

definition ex_caller_headers :: headers_obj where
  "ex_caller_headers = [''Accept'' \<mapsto> JStr ''text/plain'', ''Authorization'' \<mapsto> JStr ''caller'']"

definition ex_adapter_headers :: headers_obj where
  "ex_adapter_headers = [''Authorization'' \<mapsto> JStr ''adapter'']"

definition ex_flagged_payload :: jsval where
  "ex_flagged_payload = JObj [(''errors'', JStr ''bad'')]"

definition ex_adapter_error :: "jsval \<Rightarrow> jsval" where
  "ex_adapter_error payload = JObj [(''isAdapterError'', JBool True), (''payload'', payload)]"

definition ex_bag :: "string option ajax_settings" where
  "ex_bag = ex_settings None None (JObj [(''name'', JStr ''a'')]) (Some 0)"

section \<open>Truthiness\<close>

lemma truthy_not_nullish: "truthy v \<Longrightarrow> v \<noteq> JUndefined \<and> v \<noteq> JNull"
  by auto

lemma falsy_iff: "\<not> truthy v \<longleftrightarrow> v \<in> {JUndefined, JNull, JBool False, JNum 0, JStr []}"
  by (cases v) auto

text \<open>The example inputs, for evaluation.\<close>

lemmas ex_defs = ex_env_def ex_env_broken_def ex_parse_def ex_fetch_def ex_response_def
  ex_stringify_def ex_serializeQueryParams_def ex_adapter_def ex_handleResponse_def
  ex_settings_def ex_request_def ex_headers_def ex_widget_response_def ex_flagged_response_def
  ex_count_response_def ex_missing_response_def ex_flagged_payload_def ex_adapter_error_def
  ex_bag_def ex_caller_headers_def ex_adapter_headers_def

section \<open>The body resolver\<close>

text \<open>
  C1. When \<open>JSON.parse\<close> throws a \<open>SyntaxError\<close> on the body text, the response is successful
  (\<open>response.ok\<close>, which the code requires) and its status is 204 or 205 or the request's
  method is HEAD, \<open>determineBodyPromise\<close> resolves to \<open>undefined\<close>, the no-content marker,
  and logs nothing.
\<close>

theorem determineBodyPromise_no_content:
  assumes "JSON_parse e (resp_text response) = SyntaxError err"
    and "ok response"
    and "status response = 204 \<or> status response = 205 \<or> req_method requestData = ''HEAD''"
  shows "determineBodyPromise e response requestData = (Resolved JUndefined, [])"
  using assms by (simp add: determineBodyPromise_def Let_def)

theorem determineBodyPromise_no_content_witness:
  "JSON_parse ex_env (resp_text (ex_response 204 True ''No Content'' []))
     = SyntaxError (JStr ''SyntaxError: Unexpected token'')
   \<and> ok (ex_response 204 True ''No Content'' [])
   \<and> status (ex_response 204 True ''No Content'' []) = 204
   \<and> determineBodyPromise ex_env (ex_response 204 True ''No Content'' [])
        (ex_request ''/widgets/1'' ''DELETE'') = (Resolved JUndefined, [])"
proof -
  have p: "JSON_parse ex_env (resp_text (ex_response 204 True ''No Content'' []))
             = SyntaxError (JStr ''SyntaxError: Unexpected token'')"
    by (simp add: ex_defs)
  have o: "ok (ex_response 204 True ''No Content'' [])"
    by (simp add: ex_defs)
  have s: "status (ex_response 204 True ''No Content'' []) = 204"
    by (simp add: ex_defs)
  from determineBodyPromise_no_content [OF p o disjI1 [OF s]] p o s
  show ?thesis by simp
qed

text \<open>
  C9. When \<open>JSON.parse\<close> throws a \<open>SyntaxError\<close> and the response does not qualify for the
  no-content tolerance (it is not successful, or its status is neither 204 nor 205 and the
  method is not HEAD), \<open>determineBodyPromise\<close> resolves to the raw body text and logs one
  warning; when \<open>JSON.parse\<close> throws anything else, the promise is rejected with that error.
\<close>

theorem determineBodyPromise_raw_text:
  "(JSON_parse e (resp_text response) = SyntaxError err
      \<and> \<not> (ok response \<and> (status response = 204 \<or> status response = 205
                             \<or> req_method requestData = ''HEAD''))
     \<longrightarrow> determineBodyPromise e response requestData
          = (Resolved (JStr (resp_text response)),
             [(''This response was unable to be parsed as json.'', JStr (resp_text response))]))
   \<and> (JSON_parse e (resp_text response) = OtherError err
     \<longrightarrow> determineBodyPromise e response requestData = (Rejected err, []))"
  by (auto simp add: determineBodyPromise_def Let_def)

theorem determineBodyPromise_raw_text_witness:
  "JSON_parse ex_env (resp_text (ex_response 200 True ''OK'' ''hello''))
     = SyntaxError (JStr ''SyntaxError: Unexpected token'')
   \<and> \<not> (ok (ex_response 200 True ''OK'' ''hello'')
         \<and> (status (ex_response 200 True ''OK'' ''hello'') = 204
              \<or> status (ex_response 200 True ''OK'' ''hello'') = 205
              \<or> req_method (ex_request ''/greeting'' ''GET'') = ''HEAD''))
   \<and> determineBodyPromise ex_env (ex_response 200 True ''OK'' ''hello'')
        (ex_request ''/greeting'' ''GET'')
      = (Resolved (JStr ''hello''),
         [(''This response was unable to be parsed as json.'', JStr ''hello'')])
   \<and> JSON_parse ex_env_broken (resp_text (ex_response 200 True ''OK'' ''hello''))
      = OtherError (JStr ''RangeError'')
   \<and> determineBodyPromise ex_env_broken (ex_response 200 True ''OK'' ''hello'')
        (ex_request ''/greeting'' ''GET'')
      = (Rejected (JStr ''RangeError''), [])"
proof -
  have p: "JSON_parse ex_env (resp_text (ex_response 200 True ''OK'' ''hello''))
             = SyntaxError (JStr ''SyntaxError: Unexpected token'')"
    by (simp add: ex_defs)
  have n: "\<not> (ok (ex_response 200 True ''OK'' ''hello'')
              \<and> (status (ex_response 200 True ''OK'' ''hello'') = 204
                   \<or> status (ex_response 200 True ''OK'' ''hello'') = 205
                   \<or> req_method (ex_request ''/greeting'' ''GET'') = ''HEAD''))"
    by (simp add: ex_defs)
  have q: "JSON_parse ex_env_broken (resp_text (ex_response 200 True ''OK'' ''hello''))
             = OtherError (JStr ''RangeError'')"
    by (simp add: ex_defs)
  have t: "resp_text (ex_response 200 True ''OK'' ''hello'') = ''hello''"
    by (simp add: ex_defs)
  from determineBodyPromise_raw_text
         [of ex_env "ex_response 200 True ''OK'' ''hello''" "JStr ''SyntaxError: Unexpected token''"
             "ex_request ''/greeting'' ''GET''"]
       determineBodyPromise_raw_text
         [of ex_env_broken "ex_response 200 True ''OK'' ''hello''" "JStr ''RangeError''"
             "ex_request ''/greeting'' ''GET''"]
       p n q t
  show ?thesis by simp
qed


section \<open>The request option munger\<close>

text \<open>The function as the composition of its blocks, then each block and each field of
  the result.\<close>

lemma mung_staged:
  "mungOptionsForFetch e opts ad h =
     (let options = initial_options opts;
          adapterHeaders = adapter_headers ad;
          (options, h) = merge_adapter_headers options adapterHeaders h;
          options = options\<lparr>method :=
                      (case type options of
                         None \<Rightarrow> ''GET''
                       | Some t \<Rightarrow> if t \<noteq> [] then t else ''GET'')\<rparr>;
          options = attach_data e options
      in default_content_type options h)"
  unfolding mungOptionsForFetch_def initial_options_def merge_adapter_headers_def
    attach_data_def default_content_type_def
  by (rule refl)


lemma init_fields:
  "initial_options opts
     = \<lparr>url = url opts, type = type opts, data = data opts, headers = headers opts,
        credentials = Some (case credentials opts of None \<Rightarrow> ''same-origin'' | Some c \<Rightarrow> c),
        body = body opts, method = []\<rparr>"
  by (cases opts) (simp add: initial_options_def ajax_settings.defs fetch_options.defs)

lemma merge_fst:
  "fst (merge_adapter_headers options adapterHeaders h)
     = options\<lparr>headers :=
         (case adapterHeaders of
            None \<Rightarrow> headers options
          | Some ah \<Rightarrow> Some (case headers options of Some a \<Rightarrow> a | None \<Rightarrow> length h))\<rparr>"
  by (simp add: merge_adapter_headers_def alloc_def split: option.splits)

lemma merge_snd:
  "snd (merge_adapter_headers options adapterHeaders h)
     = (case adapterHeaders of
          None \<Rightarrow> h
        | Some ah \<Rightarrow>
            (case headers options of
               Some a \<Rightarrow> h[a := assign (h ! a) ah]
             | None \<Rightarrow> h @ [assign Map.empty ah]))"
  by (simp add: merge_adapter_headers_def alloc_def split: option.splits)

lemma attach_data_eq:
  "attach_data e options
     = options\<lparr>url :=
           (if truthy (data options) \<and> (method options = ''GET'' \<or> method options = ''HEAD'')
               \<and> object_keys_length (data options) \<noteq> 0
            then url options @ (if CHR ''?'' \<in> set (url options) then ''&'' else ''?'')
                   @ serializeQueryParams e (data options)
            else url options),
         body :=
           (if truthy (data options) \<and> \<not> (method options = ''GET'' \<or> method options = ''HEAD'')
            then Some (JSON_stringify e (data options))
            else body options)\<rparr>"
  by (simp add: attach_data_def Let_def)

lemma default_fst:
  "fst (default_content_type options h)
     = options\<lparr>headers :=
         (if method options \<noteq> ''GET'' \<and> has_body options \<and> headers options = None
          then Some (length h) else headers options)\<rparr>"
  by (simp add: default_content_type_def alloc_def has_body_def split: option.splits)

lemma default_snd:
  "snd (default_content_type options h)
     = (if method options \<noteq> ''GET'' \<and> has_body options
           \<and> \<not> content_type_found (headers_or_empty h (headers options))
        then (case headers options of
                None \<Rightarrow> h @ [[''Content-Type'' \<mapsto> JStr ''application/json; charset=utf-8'']]
              | Some a \<Rightarrow> h[a := (h ! a)(''Content-Type'' \<mapsto> JStr ''application/json; charset=utf-8'')])
        else h)"
  by (simp add: default_content_type_def alloc_def has_body_def content_type_found_def
        headers_or_empty_def header_get_def split: option.splits)

lemmas mung_stages = mung_staged Let_def split_def init_fields merge_fst merge_snd
  attach_data_eq default_fst default_snd

lemma mung_method:
  "method (fst (mungOptionsForFetch e opts ad h))
     = (case type opts of None \<Rightarrow> ''GET'' | Some t \<Rightarrow> if t \<noteq> [] then t else ''GET'')"
  by (simp add: mung_stages)

lemma mung_body:
  "body (fst (mungOptionsForFetch e opts ad h))
     = (if truthy (data opts)
           \<and> \<not> (method (fst (mungOptionsForFetch e opts ad h)) = ''GET''
                \<or> method (fst (mungOptionsForFetch e opts ad h)) = ''HEAD'')
        then Some (JSON_stringify e (data opts)) else body opts)"
  unfolding mung_method by (simp add: mung_stages)

lemma mung_url:
  "url (fst (mungOptionsForFetch e opts ad h))
     = (if truthy (data opts)
           \<and> (method (fst (mungOptionsForFetch e opts ad h)) = ''GET''
                \<or> method (fst (mungOptionsForFetch e opts ad h)) = ''HEAD'')
           \<and> object_keys_length (data opts) \<noteq> 0
        then url opts @ (if CHR ''?'' \<in> set (url opts) then ''&'' else ''?'')
               @ serializeQueryParams e (data opts)
        else url opts)"
  unfolding mung_method by (simp add: mung_stages)



lemma mung_has_body:
  "has_body (fst (mungOptionsForFetch e opts ad h))
     = (if truthy (data opts)
           \<and> \<not> (method (fst (mungOptionsForFetch e opts ad h)) = ''GET''
                \<or> method (fst (mungOptionsForFetch e opts ad h)) = ''HEAD'')
        then JSON_stringify e (data opts) \<noteq> []
        else (case body opts of None \<Rightarrow> False | Some b \<Rightarrow> b \<noteq> []))"
  unfolding has_body_def mung_body by auto

lemma mung_credentials:
  "credentials (fst (mungOptionsForFetch e opts ad h))
     = Some (case credentials opts of None \<Rightarrow> ''same-origin'' | Some c \<Rightarrow> c)"
  by (simp add: mung_stages)

lemma mung_headers_field:
  "headers (fst (mungOptionsForFetch e opts ad h))
     = (case headers opts of
          Some a \<Rightarrow> Some a
        | None \<Rightarrow>
            if adapter_headers ad \<noteq> None
               \<or> (method (fst (mungOptionsForFetch e opts ad h)) \<noteq> ''GET''
                   \<and> has_body (fst (mungOptionsForFetch e opts ad h)))
            then Some (length h) else None)"
  unfolding mung_has_body mung_method
  by (cases "adapter_headers ad"; cases "headers opts")
     (auto simp add: mung_stages has_body_def)

lemma mung_snd:
  "snd (mungOptionsForFetch e opts ad h)
     = (let h1 = (case adapter_headers ad of
                    None \<Rightarrow> h
                  | Some ah \<Rightarrow>
                      (case headers opts of
                         Some a \<Rightarrow> h[a := assign (h ! a) ah]
                       | None \<Rightarrow> h @ [assign Map.empty ah]));
            r1 = (case adapter_headers ad of
                    None \<Rightarrow> headers opts
                  | Some ah \<Rightarrow> Some (case headers opts of Some a \<Rightarrow> a | None \<Rightarrow> length h))
        in if method (fst (mungOptionsForFetch e opts ad h)) \<noteq> ''GET''
              \<and> has_body (fst (mungOptionsForFetch e opts ad h))
              \<and> \<not> content_type_found (headers_or_empty h1 r1)
           then (case r1 of
                   None \<Rightarrow> h1 @ [[''Content-Type'' \<mapsto> JStr ''application/json; charset=utf-8'']]
                 | Some a \<Rightarrow> h1[a := (h1 ! a)(''Content-Type'' \<mapsto> JStr ''application/json; charset=utf-8'')])
           else h1)"
  unfolding mung_has_body mung_method
  by (cases "adapter_headers ad"; cases "headers opts")
     (auto simp add: mung_stages has_body_def)


lemma mung_final_headers:
  assumes "valid_ref h (headers opts)"
  shows "headers_or_empty (snd (mungOptionsForFetch e opts ad h))
           (headers (fst (mungOptionsForFetch e opts ad h)))
         = (if method (fst (mungOptionsForFetch e opts ad h)) \<noteq> ''GET''
               \<and> has_body (fst (mungOptionsForFetch e opts ad h))
               \<and> \<not> content_type_found (merged_headers h (headers opts) (adapter_headers ad))
            then (merged_headers h (headers opts) (adapter_headers ad))
                   (''Content-Type'' \<mapsto> JStr ''application/json; charset=utf-8'')
            else merged_headers h (headers opts) (adapter_headers ad))"
  using assms unfolding mung_snd mung_headers_field
  by (cases "adapter_headers ad"; cases "headers opts")
     (auto simp add: Let_def headers_or_empty_def merged_headers_def valid_ref_def
        content_type_found_def header_get_def)

lemma mung_result_valid:
  assumes "valid_ref h (headers opts)"
  shows "valid_ref (snd (mungOptionsForFetch e opts ad h))
           (headers (fst (mungOptionsForFetch e opts ad h)))"
  using assms unfolding mung_snd mung_headers_field
  by (cases "adapter_headers ad"; cases "headers opts")
     (auto simp add: Let_def headers_or_empty_def valid_ref_def
        content_type_found_def header_get_def)

lemma mung_heap_frame:
  assumes "a' < length h" and "headers opts \<noteq> Some a'"
  shows "snd (mungOptionsForFetch e opts ad h) ! a' = h ! a'"
  using assms unfolding mung_snd
  by (cases "adapter_headers ad"; cases "headers opts")
     (auto simp add: Let_def nth_append)

text \<open>Facts for evaluating the function on the example inputs.\<close>

lemmas obs_defs = valid_ref_def headers_or_empty_def merged_headers_def content_type_found_def
  header_get_def assign_def

lemma ex_settings_sel:
  "url (ex_settings u t d hs) = u" "type (ex_settings u t d hs) = t"
  "data (ex_settings u t d hs) = d" "headers (ex_settings u t d hs) = hs"
  "credentials (ex_settings u t d hs) = None" "body (ex_settings u t d hs) = None"
  by (simp_all add: ex_settings_def)

lemmas mung_eval = mung_snd mung_headers_field mung_has_body mung_method mung_body mung_url Let_def

text \<open>
  C6, as the code has it. When the resolved method is GET or HEAD, \<open>mungOptionsForFetch\<close>
  writes no body: the descriptor's body is the \<open>body\<close> key the bag itself carried, unset
  when it carried none; and a non-empty \<open>data\<close> payload (truthy, with at least one key) is
  appended to the url as a query string, after \<open>?\<close> or \<open>&\<close>.
\<close>

theorem mungOptionsForFetch_bodyless:
  assumes "mungOptionsForFetch e opts ad h = (hash, h')"
    and "method hash = ''GET'' \<or> method hash = ''HEAD''"
  shows "body hash = body opts
       \<and> (truthy (data opts) \<and> object_keys_length (data opts) \<noteq> 0
            \<longrightarrow> (\<exists>delimiter \<in> {''?'', ''&''}.
                   url hash = url opts @ delimiter @ serializeQueryParams e (data opts)))"
proof -
  have hash: "hash = fst (mungOptionsForFetch e opts ad h)"
    using assms(1) by simp
  have "body hash = body opts"
    using assms(2) unfolding hash by (subst mung_body) simp
  moreover have "url hash = url opts @ (if CHR ''?'' \<in> set (url opts) then ''&'' else ''?'')
                              @ serializeQueryParams e (data opts)"
    if "truthy (data opts)" "object_keys_length (data opts) \<noteq> 0"
    using assms(2) that unfolding hash by (subst mung_url) simp
  ultimately show ?thesis by auto
qed

theorem mungOptionsForFetch_bodyless_witness:
  "method (fst (mungOptionsForFetch ex_env
       (ex_settings ''/widgets'' (Some ''HEAD'') (JObj [(''sort'', JStr ''id'')]) None)
       (ex_adapter None) [])) = ''HEAD''
   \<and> truthy (data (ex_settings ''/widgets'' (Some ''HEAD'') (JObj [(''sort'', JStr ''id'')]) None))
   \<and> object_keys_length
        (data (ex_settings ''/widgets'' (Some ''HEAD'') (JObj [(''sort'', JStr ''id'')]) None)) \<noteq> 0
   \<and> body (ex_settings ''/widgets'' (Some ''HEAD'') (JObj [(''sort'', JStr ''id'')]) None) = None
   \<and> body (fst (mungOptionsForFetch ex_env
       (ex_settings ''/widgets'' (Some ''HEAD'') (JObj [(''sort'', JStr ''id'')]) None)
       (ex_adapter None) [])) = None
   \<and> url (fst (mungOptionsForFetch ex_env
       (ex_settings ''/widgets'' (Some ''HEAD'') (JObj [(''sort'', JStr ''id'')]) None)
       (ex_adapter None) [])) \<in> {''/widgets?sort=id'', ''/widgets&sort=id''}"
proof -
  let ?opts = "ex_settings ''/widgets'' (Some ''HEAD'') (JObj [(''sort'', JStr ''id'')]) None"
  have m: "method (fst (mungOptionsForFetch ex_env ?opts (ex_adapter None) [])) = ''HEAD''"
    by (simp add: mung_method ex_settings_def)
  have d: "truthy (data ?opts) \<and> object_keys_length (data ?opts) \<noteq> 0"
    by (simp add: ex_settings_def)
  have s: "url ?opts = ''/widgets''" "body ?opts = None"
    "serializeQueryParams ex_env (data ?opts) = ''sort=id''"
    by (simp_all add: ex_defs)
  from mungOptionsForFetch_bodyless [OF surjective_pairing disjI2 [OF m]] m d s
  show ?thesis by auto
qed

text \<open>
  C6 as stated fails: a GET bag that itself carries \<open>body: 'x'\<close> comes back with that body,
  because line 38 copies every own key of the bag and no later line removes it.
\<close>

theorem mungOptionsForFetch_bodyless_counterexample:
  "method (fst (mungOptionsForFetch ex_env
       ((ex_settings ''/widgets'' (Some ''GET'') JUndefined None)\<lparr>body := Some ''x''\<rparr>)
       (ex_adapter None) [])) = ''GET''
   \<and> body (fst (mungOptionsForFetch ex_env
       ((ex_settings ''/widgets'' (Some ''GET'') JUndefined None)\<lparr>body := Some ''x''\<rparr>)
       (ex_adapter None) [])) = Some ''x''
   \<and> body (fst (mungOptionsForFetch ex_env
       ((ex_settings ''/widgets'' (Some ''GET'') JUndefined None)\<lparr>body := Some ''x''\<rparr>)
       (ex_adapter None) [])) \<noteq> None"
  by (simp add: mung_method mung_body ex_settings_def)

text \<open>
  C7. When \<open>data\<close> is an empty object, the url of the descriptor is the input url, whatever
  the method.
\<close>

theorem mungOptionsForFetch_empty_data:
  assumes "mungOptionsForFetch e opts ad h = (hash, h')"
    and "data opts = JObj []"
  shows "url hash = url opts"
proof -
  have "url (fst (mungOptionsForFetch e opts ad h)) = url opts"
    using assms(2) by (subst mung_url) simp
  then show ?thesis using assms(1) by simp
qed

theorem mungOptionsForFetch_empty_data_witness:
  "data (ex_settings ''/widgets'' (Some ''GET'') (JObj []) None) = JObj []
   \<and> truthy (JObj [])
   \<and> url (fst (mungOptionsForFetch ex_env (ex_settings ''/widgets'' (Some ''GET'') (JObj []) None)
                 (ex_adapter None) [])) = ''/widgets''"
proof -
  have d: "data (ex_settings ''/widgets'' (Some ''GET'') (JObj []) None) = JObj []"
    by (simp add: ex_settings_def)
  from mungOptionsForFetch_empty_data [OF surjective_pairing d] d
  show ?thesis by (simp add: ex_settings_def)
qed

text \<open>
  C8. For a GET or HEAD request with a non-empty \<open>data\<close> payload, the serialized query
  parameters are appended to the url after \<open>&\<close> when the url contains a \<open>?\<close>, and after
  \<open>?\<close> otherwise.
\<close>

theorem mungOptionsForFetch_query_delimiter:
  assumes "mungOptionsForFetch e opts ad h = (hash, h')"
    and "method hash = ''GET'' \<or> method hash = ''HEAD''"
    and "truthy (data opts)"
    and "object_keys_length (data opts) \<noteq> 0"
  shows "url hash = url opts @ (if CHR ''?'' \<in> set (url opts) then ''&'' else ''?'')
                      @ serializeQueryParams e (data opts)"
proof -
  have "hash = fst (mungOptionsForFetch e opts ad h)"
    using assms(1) by simp
  with assms(2-4) show ?thesis
    by (simp add: mung_url)
qed

theorem mungOptionsForFetch_query_delimiter_witness:
  "method (fst (mungOptionsForFetch ex_env
       (ex_settings ''/widgets?page=2'' (Some ''GET'') (JObj [(''sort'', JStr ''id'')]) None)
       (ex_adapter None) [])) = ''GET''
   \<and> truthy (data (ex_settings ''/widgets?page=2'' (Some ''GET'') (JObj [(''sort'', JStr ''id'')]) None))
   \<and> object_keys_length
        (data (ex_settings ''/widgets?page=2'' (Some ''GET'') (JObj [(''sort'', JStr ''id'')]) None)) \<noteq> 0
   \<and> url (fst (mungOptionsForFetch ex_env
       (ex_settings ''/widgets?page=2'' (Some ''GET'') (JObj [(''sort'', JStr ''id'')]) None)
       (ex_adapter None) [])) = ''/widgets?page=2&sort=id''
   \<and> url (fst (mungOptionsForFetch ex_env
       (ex_settings ''/widgets'' None (JObj [(''sort'', JStr ''id'')]) None)
       (ex_adapter None) [])) = ''/widgets?sort=id''"
proof -
  let ?a = "ex_settings ''/widgets?page=2'' (Some ''GET'') (JObj [(''sort'', JStr ''id'')]) None"
  let ?b = "ex_settings ''/widgets'' None (JObj [(''sort'', JStr ''id'')]) None"
  have ma: "method (fst (mungOptionsForFetch ex_env ?a (ex_adapter None) [])) = ''GET''"
    by (simp add: mung_method ex_settings_def)
  have mb: "method (fst (mungOptionsForFetch ex_env ?b (ex_adapter None) [])) = ''GET''"
    by (simp add: mung_method ex_settings_def)
  have da: "truthy (data ?a)" "object_keys_length (data ?a) \<noteq> 0"
    by (simp_all add: ex_settings_def)
  have db: "truthy (data ?b)" "object_keys_length (data ?b) \<noteq> 0"
    by (simp_all add: ex_settings_def)
  have s: "url ?a = ''/widgets?page=2''" "url ?b = ''/widgets''"
    "serializeQueryParams ex_env (data ?a) = ''sort=id''"
    "serializeQueryParams ex_env (data ?b) = ''sort=id''"
    by (simp_all add: ex_defs)
  from mungOptionsForFetch_query_delimiter [OF surjective_pairing disjI1 [OF ma] da]
       mungOptionsForFetch_query_delimiter [OF surjective_pairing disjI1 [OF mb] db]
       ma da s
  show ?thesis by simp
qed


text \<open>
  C2. When the adapter has default headers, lines 45 to 48 of \<open>mungOptionsForFetch\<close> overlay
  them on the caller's headers, and the rest of the function runs from the state they
  leave. The overlay is written into the caller's own header object when the bag has one
  (no other object changes) and into a new object otherwise. In the object the options then
  refer to, a key the adapter sets holds the adapter's value, and every other key holds what
  the caller supplied. The same holds of the descriptor returned, for every key but
  \<open>Content-Type\<close>, which lines 73 to 81 may write afterwards.
\<close>

theorem mungOptionsForFetch_header_merge:
  assumes "adapter_headers ad = Some ah"
    and "valid_ref h (headers opts)"
    and "merge_adapter_headers (initial_options opts) (adapter_headers ad) h = (options1, h1)"
  shows "mungOptionsForFetch e opts ad h
           = default_content_type
               (attach_data e
                  (options1\<lparr>method :=
                     (case type options1 of
                        None \<Rightarrow> ''GET''
                      | Some t \<Rightarrow> if t \<noteq> [] then t else ''GET'')\<rparr>))
               h1
       \<and> (\<forall>a. headers opts = Some a \<longrightarrow>
              headers options1 = Some a \<and> length h1 = length h
              \<and> (\<forall>a'<length h. a' \<noteq> a \<longrightarrow> h1 ! a' = h ! a'))
       \<and> (headers opts = None \<longrightarrow> headers options1 = Some (length h) \<and> h1 = h @ [ah])
       \<and> valid_ref h1 (headers options1)
       \<and> (\<forall>k. headers_or_empty h1 (headers options1) k
                = (case ah k of
                     Some v \<Rightarrow> Some v
                   | None \<Rightarrow> headers_or_empty h (headers opts) k))
       \<and> (\<forall>k. k \<noteq> ''Content-Type'' \<longrightarrow>
              headers_or_empty (snd (mungOptionsForFetch e opts ad h))
                (headers (fst (mungOptionsForFetch e opts ad h))) k
                = (case ah k of
                     Some v \<Rightarrow> Some v
                   | None \<Rightarrow> headers_or_empty h (headers opts) k))"
proof -
  have o1: "options1 = fst (merge_adapter_headers (initial_options opts) (Some ah) h)"
    and h1: "h1 = snd (merge_adapter_headers (initial_options opts) (Some ah) h)"
    using assms(1,3) by simp_all
  have run: "mungOptionsForFetch e opts ad h
           = default_content_type
               (attach_data e
                  (options1\<lparr>method :=
                     (case type options1 of
                        None \<Rightarrow> ''GET''
                      | Some t \<Rightarrow> if t \<noteq> [] then t else ''GET'')\<rparr>))
               h1"
    using assms(3) by (simp add: mung_staged Let_def)
  have field: "headers options1 = Some (case headers opts of Some a \<Rightarrow> a | None \<Rightarrow> length h)"
    unfolding o1 by (simp add: merge_fst init_fields)
  have heap: "h1 = (case headers opts of
                      Some a \<Rightarrow> h[a := assign (h ! a) ah]
                    | None \<Rightarrow> h @ [ah])"
    unfolding h1 by (simp add: merge_snd init_fields assign_def split: option.splits)
  have inplace: "headers options1 = Some a \<and> length h1 = length h
              \<and> (\<forall>a'<length h. a' \<noteq> a \<longrightarrow> h1 ! a' = h ! a')"
    if "headers opts = Some a" for a
    using that field heap by simp
  have fresh: "headers options1 = Some (length h) \<and> h1 = h @ [ah]"
    if "headers opts = None"
    using that field heap by simp
  have valid: "valid_ref h1 (headers options1)"
    using assms(2) field heap by (cases "headers opts") (simp_all add: valid_ref_def)
  have overlay: "headers_or_empty h1 (headers options1) k
                = (case ah k of
                     Some v \<Rightarrow> Some v
                   | None \<Rightarrow> headers_or_empty h (headers opts) k)" for k
    using assms(2) field heap
    by (cases "headers opts")
       (simp_all add: valid_ref_def headers_or_empty_def assign_def map_add_def
          split: option.splits)
  have final: "headers_or_empty (snd (mungOptionsForFetch e opts ad h))
                (headers (fst (mungOptionsForFetch e opts ad h))) k
                = (case ah k of
                     Some v \<Rightarrow> Some v
                   | None \<Rightarrow> headers_or_empty h (headers opts) k)"
    if "k \<noteq> ''Content-Type''" for k
    using that assms(1)
    by (simp add: mung_final_headers [OF assms(2)] merged_headers_def assign_def map_add_def
          split: option.splits)
  from run inplace fresh valid overlay final show ?thesis
    by blast
qed


theorem mungOptionsForFetch_header_merge_witness:
  "adapter_headers (ex_adapter (Some ex_adapter_headers)) = Some ex_adapter_headers
   \<and> valid_ref [ex_caller_headers] (headers (ex_settings ''/widgets'' (Some ''GET'') JUndefined (Some 0)))
   \<and> headers (ex_settings ''/widgets'' (Some ''GET'') JUndefined (Some 0)) = Some 0
   \<and> headers (fst (merge_adapter_headers
                      (initial_options (ex_settings ''/widgets'' (Some ''GET'') JUndefined (Some 0)))
                      (adapter_headers (ex_adapter (Some ex_adapter_headers)))
                      [ex_caller_headers])) = Some 0
   \<and> (snd (merge_adapter_headers
              (initial_options (ex_settings ''/widgets'' (Some ''GET'') JUndefined (Some 0)))
              (adapter_headers (ex_adapter (Some ex_adapter_headers)))
              [ex_caller_headers]) ! 0) ''Authorization'' = Some (JStr ''adapter'')
   \<and> (snd (merge_adapter_headers
              (initial_options (ex_settings ''/widgets'' (Some ''GET'') JUndefined (Some 0)))
              (adapter_headers (ex_adapter (Some ex_adapter_headers)))
              [ex_caller_headers]) ! 0) ''Accept'' = Some (JStr ''text/plain'')
   \<and> (snd (mungOptionsForFetch ex_env
              (ex_settings ''/widgets'' (Some ''GET'') JUndefined (Some 0))
              (ex_adapter (Some ex_adapter_headers)) [ex_caller_headers]) ! 0) ''Authorization''
       = Some (JStr ''adapter'')
   \<and> valid_ref [] (headers (ex_settings ''/widgets'' (Some ''GET'') JUndefined None))
   \<and> headers (ex_settings ''/widgets'' (Some ''GET'') JUndefined None) = None
   \<and> headers (fst (merge_adapter_headers
                      (initial_options (ex_settings ''/widgets'' (Some ''GET'') JUndefined None))
                      (adapter_headers (ex_adapter (Some ex_adapter_headers))) [])) = Some 0
   \<and> snd (merge_adapter_headers
             (initial_options (ex_settings ''/widgets'' (Some ''GET'') JUndefined None))
             (adapter_headers (ex_adapter (Some ex_adapter_headers))) []) = [ex_adapter_headers]"
proof -
  let ?opts = "ex_settings ''/widgets'' (Some ''GET'') JUndefined (Some 0)"
  let ?opts' = "ex_settings ''/widgets'' (Some ''GET'') JUndefined None"
  let ?ad = "ex_adapter (Some ex_adapter_headers)"
  let ?h = "[ex_caller_headers]"
  let ?M = "merge_adapter_headers (initial_options ?opts) (adapter_headers ?ad) ?h"
  let ?M' = "merge_adapter_headers (initial_options ?opts') (adapter_headers ?ad) []"
  let ?R = "mungOptionsForFetch ex_env ?opts ?ad ?h"
  have ah: "adapter_headers ?ad = Some ex_adapter_headers"
    by (simp add: ex_adapter_def)
  have hd: "headers ?opts = Some 0" and hd': "headers ?opts' = None"
    by (simp_all add: ex_settings_sel)
  have v: "valid_ref ?h (headers ?opts)" and v': "valid_ref [] (headers ?opts')"
    by (simp_all add: valid_ref_def ex_settings_sel)
  have r: "headers (fst ?R) = Some 0"
    by (subst mung_headers_field) (simp add: hd)
  from mungOptionsForFetch_header_merge [OF ah v surjective_pairing, of ex_env] hd
  have 1: "headers (fst ?M) = Some 0"
    and 2: "\<And>k. headers_or_empty (snd ?M) (headers (fst ?M)) k
                = (case ex_adapter_headers k of
                     Some v \<Rightarrow> Some v
                   | None \<Rightarrow> headers_or_empty ?h (headers ?opts) k)"
    and 3: "\<And>k. k \<noteq> ''Content-Type'' \<Longrightarrow>
              headers_or_empty (snd ?R) (headers (fst ?R)) k
                = (case ex_adapter_headers k of
                     Some v \<Rightarrow> Some v
                   | None \<Rightarrow> headers_or_empty ?h (headers ?opts) k)"
    by blast+
  from mungOptionsForFetch_header_merge [OF ah v' surjective_pairing, of ex_env] hd'
  have 4: "headers (fst ?M') = Some 0" and 5: "snd ?M' = [ex_adapter_headers]"
    by simp_all
  have a: "(snd ?M ! 0) ''Authorization'' = Some (JStr ''adapter'')"
    using 2 [of "''Authorization''"] unfolding 1
    by (simp add: headers_or_empty_def ex_adapter_headers_def)
  have b: "(snd ?M ! 0) ''Accept'' = Some (JStr ''text/plain'')"
    using 2 [of "''Accept''"] unfolding 1 hd
    by (simp add: headers_or_empty_def ex_adapter_headers_def ex_caller_headers_def)
  have c: "(snd ?R ! 0) ''Authorization'' = Some (JStr ''adapter'')"
    using 3 [of "''Authorization''"] unfolding r
    by (simp add: headers_or_empty_def ex_adapter_headers_def)
  from ah v hd 1 a b c v' hd' 4 5 show ?thesis
    by (simp only: simp_thms)
qed

text \<open>
  C4, as the code has it. When the resolved method is not GET and a body is present, the
  descriptor refers to a header object that equals the merged headers if the merged headers
  hold a truthy value under the exact key \<open>Content-Type\<close> or the exact key \<open>content-type\<close>,
  and the merged headers with \<open>Content-Type: application/json; charset=utf-8\<close> written
  into them otherwise. No other spelling of the key is looked at.
\<close>

theorem mungOptionsForFetch_default_content_type:
  assumes "mungOptionsForFetch e opts ad h = (hash, h')"
    and "valid_ref h (headers opts)"
    and "method hash \<noteq> ''GET''"
    and "has_body hash"
  shows "\<exists>a. headers hash = Some a \<and> a < length h'
           \<and> h' ! a =
               (if content_type_found (merged_headers h (headers opts) (adapter_headers ad))
                then merged_headers h (headers opts) (adapter_headers ad)
                else (merged_headers h (headers opts) (adapter_headers ad))
                       (''Content-Type'' \<mapsto> JStr ''application/json; charset=utf-8''))"
proof -
  have hash: "hash = fst (mungOptionsForFetch e opts ad h)"
    and h': "h' = snd (mungOptionsForFetch e opts ad h)"
    using assms(1) by simp_all
  obtain a where a: "headers hash = Some a"
    using assms(3,4) mung_headers_field [of e opts ad h] unfolding hash
    by (cases "headers opts") auto
  have "valid_ref h' (headers hash)"
    unfolding hash h' using assms(2) by (rule mung_result_valid)
  then have len: "a < length h'"
    using a by (simp add: valid_ref_def)
  have "headers_or_empty h' (headers hash)
          = (if content_type_found (merged_headers h (headers opts) (adapter_headers ad))
                then merged_headers h (headers opts) (adapter_headers ad)
                else (merged_headers h (headers opts) (adapter_headers ad))
                       (''Content-Type'' \<mapsto> JStr ''application/json; charset=utf-8''))"
    using mung_final_headers [OF assms(2), of e ad] assms(3,4) unfolding hash h' by simp
  with a len show ?thesis by (simp add: headers_or_empty_def)
qed

theorem mungOptionsForFetch_default_content_type_witness:
  "valid_ref [] (headers (ex_settings ''/widgets'' (Some ''POST'') (JObj [(''name'', JStr ''a'')]) None))
   \<and> method (fst (mungOptionsForFetch ex_env
          (ex_settings ''/widgets'' (Some ''POST'') (JObj [(''name'', JStr ''a'')]) None)
          (ex_adapter None) [])) = ''POST''
   \<and> has_body (fst (mungOptionsForFetch ex_env
          (ex_settings ''/widgets'' (Some ''POST'') (JObj [(''name'', JStr ''a'')]) None)
          (ex_adapter None) []))
   \<and> headers (fst (mungOptionsForFetch ex_env
          (ex_settings ''/widgets'' (Some ''POST'') (JObj [(''name'', JStr ''a'')]) None)
          (ex_adapter None) [])) = Some 0
   \<and> snd (mungOptionsForFetch ex_env
          (ex_settings ''/widgets'' (Some ''POST'') (JObj [(''name'', JStr ''a'')]) None)
          (ex_adapter None) []) ! 0
       = ex_headers ''Content-Type'' ''application/json; charset=utf-8''"
proof -
  let ?opts = "ex_settings ''/widgets'' (Some ''POST'') (JObj [(''name'', JStr ''a'')]) None"
  let ?R = "mungOptionsForFetch ex_env ?opts (ex_adapter None) []"
  have v: "valid_ref [] (headers ?opts)"
    by (simp add: valid_ref_def ex_settings_def)
  have m: "method (fst ?R) = ''POST''"
    by (simp add: mung_method ex_settings_def)
  have m': "method (fst ?R) \<noteq> ''GET''"
    by (simp add: m)
  have b: "has_body (fst ?R)"
    by (simp add: mung_has_body mung_method ex_defs)
  have f: "headers (fst ?R) = Some 0"
    by (subst mung_headers_field) (simp add: b m' ex_settings_sel)
  from mungOptionsForFetch_default_content_type [OF surjective_pairing v m' b]
  obtain a where "headers (fst ?R) = Some a"
    and "snd ?R ! a =
               (if content_type_found (merged_headers [] (headers ?opts) (adapter_headers (ex_adapter None)))
                then merged_headers [] (headers ?opts) (adapter_headers (ex_adapter None))
                else (merged_headers [] (headers ?opts) (adapter_headers (ex_adapter None)))
                       (''Content-Type'' \<mapsto> JStr ''application/json; charset=utf-8''))"
    by blast
  with f have "snd ?R ! 0 = ex_headers ''Content-Type'' ''application/json; charset=utf-8''"
    by (simp add: obs_defs ex_defs)
  with v m b f show ?thesis by simp
qed

text \<open>
  C4 as stated fails: the caller supplies \<open>Content-type: text/plain\<close>, a content-type header
  under a case-insensitive comparison, and the POST with data still gets
  \<open>Content-Type: application/json; charset=utf-8\<close> written next to it.
\<close>

theorem mungOptionsForFetch_default_content_type_counterexample:
  "spells_content_type ''Content-type''
   \<and> header_get ([ex_headers ''Content-type'' ''text/plain''] ! 0) ''Content-type'' = JStr ''text/plain''
   \<and> header_get ([ex_headers ''Content-type'' ''text/plain''] ! 0) ''Content-Type'' = JUndefined
   \<and> method (fst (mungOptionsForFetch ex_env
          (ex_settings ''/widgets'' (Some ''POST'') (JObj [(''name'', JStr ''a'')]) (Some 0))
          (ex_adapter None) [ex_headers ''Content-type'' ''text/plain''])) = ''POST''
   \<and> has_body (fst (mungOptionsForFetch ex_env
          (ex_settings ''/widgets'' (Some ''POST'') (JObj [(''name'', JStr ''a'')]) (Some 0))
          (ex_adapter None) [ex_headers ''Content-type'' ''text/plain'']))
   \<and> header_get (snd (mungOptionsForFetch ex_env
          (ex_settings ''/widgets'' (Some ''POST'') (JObj [(''name'', JStr ''a'')]) (Some 0))
          (ex_adapter None) [ex_headers ''Content-type'' ''text/plain'']) ! 0) ''Content-Type''
       = JStr ''application/json; charset=utf-8''
   \<and> header_get (snd (mungOptionsForFetch ex_env
          (ex_settings ''/widgets'' (Some ''POST'') (JObj [(''name'', JStr ''a'')]) (Some 0))
          (ex_adapter None) [ex_headers ''Content-type'' ''text/plain'']) ! 0) ''Content-type''
       = JStr ''text/plain''"
  by (simp add: mung_eval ex_defs obs_defs spells_content_type_def)


section \<open>The hook overrides\<close>

lemma ajaxOptions_eq:
  "ajaxOptions e ad u t options h =
     (let opts = (case options of
                    None \<Rightarrow> \<lparr>url = None, type = None, data = JUndefined, headers = None,
                             credentials = None, body = None\<rparr>
                  | Some b \<Rightarrow> b);
          R = mungOptionsForFetch e
                \<lparr>url = u, type = Some t, data = data opts, headers = headers opts,
                 credentials = credentials opts, body = body opts\<rparr>
                ad h
      in (fst R, map_option (\<lambda>_. opts\<lparr>url := Some u, type := Some t\<rparr>) options, snd R))"
  by (simp add: ajaxOptions_def Let_def split_def)

lemma triple_collapse: "x = (fst x, fst (snd x), snd (snd x))"
  by simp

text \<open>
  C3, as the code has it. \<open>ajaxOptions\<close> returns a new descriptor, but it is not free of
  effects on its argument: it writes \<open>url\<close> and \<open>type\<close> into the caller's option bag (lines
  141 and 142) and leaves the bag's \<open>data\<close> and \<open>headers\<close> fields as they were; the
  descriptor refers to the same header object as the bag, when the bag has one; every header
  object the bag does not refer to is left unchanged.
\<close>

theorem ajaxOptions_effects:
  assumes "ajaxOptions e ad u t options h = (hash, after, h')"
    and "\<forall>b. options = Some b \<longrightarrow> valid_ref h (headers b)"
  shows "after = map_option (\<lambda>b. b\<lparr>url := Some u, type := Some t\<rparr>) options
       \<and> (\<forall>b a. options = Some b \<and> headers b = Some a \<longrightarrow> headers hash = Some a)
       \<and> (\<forall>a<length h. (\<forall>b. options = Some b \<longrightarrow> headers b \<noteq> Some a) \<longrightarrow> h' ! a = h ! a)"
proof (cases options)
  case None
  with assms(1) have "after = None"
    and "h' = snd (mungOptionsForFetch e
                     \<lparr>url = u, type = Some t, data = JUndefined, headers = None,
                      credentials = None, body = None\<rparr> ad h)"
    by (simp_all add: ajaxOptions_eq Let_def)
  then show ?thesis
    using None by (simp add: mung_heap_frame)
next
  case (Some b)
  let ?R = "mungOptionsForFetch e
              \<lparr>url = u, type = Some t, data = data b, headers = headers b,
               credentials = credentials b, body = body b\<rparr> ad h"
  from assms(1) Some have after: "after = Some (b\<lparr>url := Some u, type := Some t\<rparr>)"
    and hash: "hash = fst ?R" and h': "h' = snd ?R"
    by (simp_all add: ajaxOptions_eq Let_def)
  have "headers hash = Some a" if "headers b = Some a" for a
    unfolding hash using that by (simp add: mung_headers_field)
  moreover have "h' ! a = h ! a" if "a < length h" "headers b \<noteq> Some a" for a
    unfolding h' using that by (simp add: mung_heap_frame)
  ultimately show ?thesis
    using Some after by simp
qed

theorem ajaxOptions_effects_witness:
  "valid_ref [ex_caller_headers, ex_adapter_headers] (headers ex_bag)
   \<and> headers ex_bag = Some 0
   \<and> fst (snd (ajaxOptions ex_env (ex_adapter None) ''/widgets'' ''POST'' (Some ex_bag)
                  [ex_caller_headers, ex_adapter_headers]))
       = Some (ex_settings (Some ''/widgets'') (Some ''POST'') (JObj [(''name'', JStr ''a'')]) (Some 0))
   \<and> headers (fst (ajaxOptions ex_env (ex_adapter None) ''/widgets'' ''POST'' (Some ex_bag)
                      [ex_caller_headers, ex_adapter_headers])) = Some 0
   \<and> snd (snd (ajaxOptions ex_env (ex_adapter None) ''/widgets'' ''POST'' (Some ex_bag)
                  [ex_caller_headers, ex_adapter_headers])) ! 1 = ex_adapter_headers"
proof -
  let ?h = "[ex_caller_headers, ex_adapter_headers]"
  let ?R = "ajaxOptions ex_env (ex_adapter None) ''/widgets'' ''POST'' (Some ex_bag) ?h"
  have hb: "headers ex_bag = Some 0"
    by (simp add: ex_bag_def ex_settings_sel)
  have v: "\<forall>b. Some ex_bag = Some b \<longrightarrow> valid_ref ?h (headers b)"
    by (simp add: hb valid_ref_def)
  have b': "ex_bag\<lparr>url := Some ''/widgets'', type := Some ''POST''\<rparr>
              = ex_settings (Some ''/widgets'') (Some ''POST'') (JObj [(''name'', JStr ''a'')]) (Some 0)"
    by (simp add: ex_bag_def ex_settings_def)
  from ajaxOptions_effects [OF triple_collapse v]
  have "fst (snd ?R) = map_option (\<lambda>b. b\<lparr>url := Some ''/widgets'', type := Some ''POST''\<rparr>) (Some ex_bag)"
    and "\<forall>b a. Some ex_bag = Some b \<and> headers b = Some a \<longrightarrow> headers (fst ?R) = Some a"
    and "\<forall>a<length ?h. (\<forall>b. Some ex_bag = Some b \<longrightarrow> headers b \<noteq> Some a) \<longrightarrow> snd (snd ?R) ! a = ?h ! a"
    by blast+
  then have "fst (snd ?R) = Some (ex_settings (Some ''/widgets'') (Some ''POST'') (JObj [(''name'', JStr ''a'')]) (Some 0))"
    and "headers (fst ?R) = Some 0"
    and "snd (snd ?R) ! 1 = ex_adapter_headers"
    using hb b' by auto
  with v hb show ?thesis by simp
qed

text \<open>
  C3 as stated fails: after \<open>ajaxOptions('/widgets', 'POST', bag)\<close> the bag holds the url and
  the type, which it did not before, and the header object it refers to has gained a
  \<open>Content-Type\<close>.
\<close>

theorem ajaxOptions_effects_counterexample:
  "fst (snd (ajaxOptions ex_env (ex_adapter None) ''/widgets'' ''POST'' (Some ex_bag) [ex_caller_headers]))
     = Some (ex_settings (Some ''/widgets'') (Some ''POST'') (JObj [(''name'', JStr ''a'')]) (Some 0))
   \<and> fst (snd (ajaxOptions ex_env (ex_adapter None) ''/widgets'' ''POST'' (Some ex_bag) [ex_caller_headers]))
       \<noteq> Some ex_bag
   \<and> header_get ([ex_caller_headers] ! 0) ''Content-Type'' = JUndefined
   \<and> header_get (snd (snd (ajaxOptions ex_env (ex_adapter None) ''/widgets'' ''POST'' (Some ex_bag)
                              [ex_caller_headers])) ! 0) ''Content-Type''
       = JStr ''application/json; charset=utf-8''"
  by (simp add: ajaxOptions_eq mung_eval ex_defs obs_defs)

lemma ajax_eq:
  assumes "ajaxOptions e ad u t options h = (hash, options', h')"
    and "fetch e (url hash) hash h' = Inr response"
    and "determineBodyPromise e response \<lparr>req_url = u, req_method = t\<rparr> = (Resolved payload, ws)"
  shows "ajax e ad u t options h =
           (if ok response
            then ajaxSuccess ad response (js_or payload (JStr [])) \<lparr>req_url = u, req_method = t\<rparr>
            else Rejected (ajaxError ad response payload \<lparr>req_url = u, req_method = t\<rparr> JUndefined),
            ws, options', h')"
  using assms by (simp add: ajax_def Let_def)

text \<open>
  C5. When the value the host's \<open>handleResponse\<close> returns is truthy and carries a truthy
  \<open>isAdapterError\<close>, \<open>ajaxSuccess\<close> returns a promise rejected with that value; and so does
  \<open>ajax\<close>, when the transport delivers a successful response whose body is decoded and
  \<open>handleResponse\<close> flags the decoded payload it is handed.
\<close>

theorem adapter_error_rejects:
  "(handleResponse ad (status response) (headersToObject (resp_headers response)) payload requestData = r
      \<and> truthy r \<and> truthy (get_property r ''isAdapterError'')
     \<longrightarrow> ajaxSuccess ad response payload requestData = Rejected r)
   \<and> (ajaxOptions e ad u t options h = (hash, options', h')
      \<and> fetch e (url hash) hash h' = Inr response
      \<and> ok response
      \<and> determineBodyPromise e response \<lparr>req_url = u, req_method = t\<rparr> = (Resolved decoded, ws)
      \<and> handleResponse ad (status response) (headersToObject (resp_headers response))
            (js_or decoded (JStr [])) \<lparr>req_url = u, req_method = t\<rparr> = r
      \<and> truthy r \<and> truthy (get_property r ''isAdapterError'')
     \<longrightarrow> fst (ajax e ad u t options h) = Rejected r)"
proof (intro conjI impI)
  assume "handleResponse ad (status response) (headersToObject (resp_headers response)) payload requestData = r
      \<and> truthy r \<and> truthy (get_property r ''isAdapterError'')"
  then show "ajaxSuccess ad response payload requestData = Rejected r"
    by (auto simp add: ajaxSuccess_def Let_def)
next
  assume a: "ajaxOptions e ad u t options h = (hash, options', h')
      \<and> fetch e (url hash) hash h' = Inr response
      \<and> ok response
      \<and> determineBodyPromise e response \<lparr>req_url = u, req_method = t\<rparr> = (Resolved decoded, ws)
      \<and> handleResponse ad (status response) (headersToObject (resp_headers response))
            (js_or decoded (JStr [])) \<lparr>req_url = u, req_method = t\<rparr> = r
      \<and> truthy r \<and> truthy (get_property r ''isAdapterError'')"
  then have "fst (ajax e ad u t options h)
               = ajaxSuccess ad response (js_or decoded (JStr [])) \<lparr>req_url = u, req_method = t\<rparr>"
    by (simp add: ajax_eq)
  also have "\<dots> = Rejected r"
    using a by (auto simp add: ajaxSuccess_def Let_def)
  finally show "fst (ajax e ad u t options h) = Rejected r" .
qed

theorem adapter_error_rejects_witness:
  "handleResponse (ex_adapter None) (status ex_flagged_response)
       (headersToObject (resp_headers ex_flagged_response)) ex_flagged_payload
       (ex_request ''/flagged'' ''GET'') = ex_adapter_error ex_flagged_payload
   \<and> truthy (ex_adapter_error ex_flagged_payload)
   \<and> truthy (get_property (ex_adapter_error ex_flagged_payload) ''isAdapterError'')
   \<and> ajaxSuccess (ex_adapter None) ex_flagged_response ex_flagged_payload (ex_request ''/flagged'' ''GET'')
       = Rejected (ex_adapter_error ex_flagged_payload)
   \<and> fetch ex_env (url (fst (ajaxOptions ex_env (ex_adapter None) ''/flagged'' ''GET'' None [])))
        (fst (ajaxOptions ex_env (ex_adapter None) ''/flagged'' ''GET'' None []))
        (snd (snd (ajaxOptions ex_env (ex_adapter None) ''/flagged'' ''GET'' None [])))
       = Inr ex_flagged_response
   \<and> ok ex_flagged_response
   \<and> determineBodyPromise ex_env ex_flagged_response (ex_request ''/flagged'' ''GET'')
       = (Resolved ex_flagged_payload, [])
   \<and> js_or ex_flagged_payload (JStr []) = ex_flagged_payload
   \<and> fst (ajax ex_env (ex_adapter None) ''/flagged'' ''GET'' None [])
       = Rejected (ex_adapter_error ex_flagged_payload)"
proof -
  let ?AO = "ajaxOptions ex_env (ex_adapter None) ''/flagged'' ''GET'' None []"
  let ?rd = "\<lparr>req_url = ''/flagged'', req_method = ''GET''\<rparr>"
  have rd: "ex_request ''/flagged'' ''GET'' = ?rd"
    by (simp add: ex_request_def)
  have hr: "handleResponse (ex_adapter None) (status ex_flagged_response)
              (headersToObject (resp_headers ex_flagged_response)) ex_flagged_payload ?rd
            = ex_adapter_error ex_flagged_payload"
    by (simp add: ex_defs)
  have tr: "truthy (ex_adapter_error ex_flagged_payload)"
      "truthy (get_property (ex_adapter_error ex_flagged_payload) ''isAdapterError'')"
    by (simp_all add: ex_adapter_error_def)
  have f: "fetch ex_env (url (fst ?AO)) (fst ?AO) (snd (snd ?AO)) = Inr ex_flagged_response"
    by (simp add: ajaxOptions_eq Let_def mung_url ex_env_def ex_fetch_def)
  have okr: "ok ex_flagged_response"
    by (simp add: ex_flagged_response_def ex_response_def)
  have d: "determineBodyPromise ex_env ex_flagged_response ?rd = (Resolved ex_flagged_payload, [])"
    by (simp add: determineBodyPromise_def Let_def ex_defs)
  have j: "js_or ex_flagged_payload (JStr []) = ex_flagged_payload"
    by (simp add: js_or_def ex_flagged_payload_def)
  have hr': "handleResponse (ex_adapter None) (status ex_flagged_response)
              (headersToObject (resp_headers ex_flagged_response))
              (js_or ex_flagged_payload (JStr [])) ?rd
            = ex_adapter_error ex_flagged_payload"
    using hr by (simp only: j)
  note inst = adapter_error_rejects
      [of "ex_adapter None" ex_flagged_response ex_flagged_payload ?rd
          "ex_adapter_error ex_flagged_payload" ex_env "''/flagged''" "''GET''" None "[]"
          "fst ?AO" "fst (snd ?AO)" "snd (snd ?AO)" ex_flagged_payload "[]"]
  from inst hr tr have 1: "ajaxSuccess (ex_adapter None) ex_flagged_response ex_flagged_payload ?rd
                           = Rejected (ex_adapter_error ex_flagged_payload)"
    by blast
  from inst f okr d hr' tr
  have 2: "fst (ajax ex_env (ex_adapter None) ''/flagged'' ''GET'' None [])
             = Rejected (ex_adapter_error ex_flagged_payload)"
    by simp
  from 1 2 hr tr f okr d j show ?thesis
    by (simp only: rd simp_thms)
qed

text \<open>
  C10. On a successful response \<open>ajax\<close> hands \<open>ajaxSuccess\<close>, and so \<open>handleResponse\<close>, the
  empty string in place of a decoded payload that is \<open>undefined\<close>, 0, \<open>false\<close>, \<open>null\<close> or
  the empty string, and a truthy payload as it is; on an unsuccessful response it rejects
  with the value of \<open>ajaxError\<close>, which receives the decoded payload unchanged.
\<close>

theorem ajax_payload_handoff:
  assumes "ajaxOptions e ad u t options h = (hash, options', h')"
    and "fetch e (url hash) hash h' = Inr response"
    and "determineBodyPromise e response \<lparr>req_url = u, req_method = t\<rparr> = (Resolved payload, ws)"
  shows "(ok response \<and> payload \<in> {JUndefined, JNum 0, JBool False, JNull, JStr []}
            \<longrightarrow> fst (ajax e ad u t options h)
                  = ajaxSuccess ad response (JStr []) \<lparr>req_url = u, req_method = t\<rparr>)
       \<and> (ok response \<and> truthy payload
            \<longrightarrow> fst (ajax e ad u t options h)
                  = ajaxSuccess ad response payload \<lparr>req_url = u, req_method = t\<rparr>)
       \<and> (\<not> ok response
            \<longrightarrow> fst (ajax e ad u t options h)
                  = Rejected (ajaxError ad response payload \<lparr>req_url = u, req_method = t\<rparr> JUndefined))"
  unfolding ajax_eq [OF assms] by (auto simp add: js_or_def)

theorem ajax_payload_handoff_witness:
  "fetch ex_env (url (fst (ajaxOptions ex_env (ex_adapter None) ''/count'' ''GET'' None [])))
        (fst (ajaxOptions ex_env (ex_adapter None) ''/count'' ''GET'' None []))
        (snd (snd (ajaxOptions ex_env (ex_adapter None) ''/count'' ''GET'' None [])))
     = Inr ex_count_response
   \<and> determineBodyPromise ex_env ex_count_response (ex_request ''/count'' ''GET'')
       = (Resolved (JNum 0), [])
   \<and> ok ex_count_response
   \<and> JNum 0 \<in> {JUndefined, JNum 0, JBool False, JNull, JStr []}
   \<and> fst (ajax ex_env (ex_adapter None) ''/count'' ''GET'' None [])
       = ajaxSuccess (ex_adapter None) ex_count_response (JStr []) (ex_request ''/count'' ''GET'')
   \<and> ajaxSuccess (ex_adapter None) ex_count_response (JStr []) (ex_request ''/count'' ''GET'')
       = Resolved (JStr [])
   \<and> fetch ex_env (url (fst (ajaxOptions ex_env (ex_adapter None) ''/widgets/1'' ''GET'' None [])))
        (fst (ajaxOptions ex_env (ex_adapter None) ''/widgets/1'' ''GET'' None []))
        (snd (snd (ajaxOptions ex_env (ex_adapter None) ''/widgets/1'' ''GET'' None [])))
     = Inr ex_widget_response
   \<and> determineBodyPromise ex_env ex_widget_response (ex_request ''/widgets/1'' ''GET'')
       = (Resolved (JObj [(''id'', JNum 1)]), [])
   \<and> ok ex_widget_response
   \<and> truthy (JObj [(''id'', JNum 1)])
   \<and> fst (ajax ex_env (ex_adapter None) ''/widgets/1'' ''GET'' None [])
       = ajaxSuccess (ex_adapter None) ex_widget_response (JObj [(''id'', JNum 1)])
           (ex_request ''/widgets/1'' ''GET'')
   \<and> fetch ex_env (url (fst (ajaxOptions ex_env (ex_adapter None) ''/missing'' ''GET'' None [])))
        (fst (ajaxOptions ex_env (ex_adapter None) ''/missing'' ''GET'' None []))
        (snd (snd (ajaxOptions ex_env (ex_adapter None) ''/missing'' ''GET'' None [])))
     = Inr ex_missing_response
   \<and> determineBodyPromise ex_env ex_missing_response (ex_request ''/missing'' ''GET'')
       = (Resolved (JStr ''not here''),
          [(''This response was unable to be parsed as json.'', JStr ''not here'')])
   \<and> \<not> ok ex_missing_response
   \<and> fst (ajax ex_env (ex_adapter None) ''/missing'' ''GET'' None [])
       = Rejected (ajaxError (ex_adapter None) ex_missing_response (JStr ''not here'')
                     (ex_request ''/missing'' ''GET'') JUndefined)
   \<and> ajaxError (ex_adapter None) ex_missing_response (JStr ''not here'')
         (ex_request ''/missing'' ''GET'') JUndefined
       = ex_adapter_error (JStr ''not here'')"
proof -
  let ?ad = "ex_adapter None"
  let ?AO = "\<lambda>u. ajaxOptions ex_env ?ad u ''GET'' None []"
  have rd: "ex_request u m = \<lparr>req_url = u, req_method = m\<rparr>" for u m
    by (simp add: ex_request_def)
  have f1: "fetch ex_env (url (fst (?AO ''/count''))) (fst (?AO ''/count'')) (snd (snd (?AO ''/count'')))
              = Inr ex_count_response"
    by (simp add: ajaxOptions_eq Let_def mung_url ex_env_def ex_fetch_def)
  have d1: "determineBodyPromise ex_env ex_count_response \<lparr>req_url = ''/count'', req_method = ''GET''\<rparr>
              = (Resolved (JNum 0), [])"
    by (simp add: determineBodyPromise_def Let_def ex_defs)
  have o1: "ok ex_count_response"
    by (simp add: ex_count_response_def ex_response_def)
  have s1: "ajaxSuccess ?ad ex_count_response (JStr []) \<lparr>req_url = ''/count'', req_method = ''GET''\<rparr>
              = Resolved (JStr [])"
    by (simp add: ajaxSuccess_def ex_defs)
  have f2: "fetch ex_env (url (fst (?AO ''/widgets/1''))) (fst (?AO ''/widgets/1''))
              (snd (snd (?AO ''/widgets/1''))) = Inr ex_widget_response"
    by (simp add: ajaxOptions_eq Let_def mung_url mung_method ex_env_def ex_fetch_def)
  have d2: "determineBodyPromise ex_env ex_widget_response
              \<lparr>req_url = ''/widgets/1'', req_method = ''GET''\<rparr>
              = (Resolved (JObj [(''id'', JNum 1)]), [])"
    by (simp add: determineBodyPromise_def Let_def ex_defs)
  have o2: "ok ex_widget_response"
    by (simp add: ex_widget_response_def ex_response_def)
  have f3: "fetch ex_env (url (fst (?AO ''/missing''))) (fst (?AO ''/missing''))
              (snd (snd (?AO ''/missing''))) = Inr ex_missing_response"
    by (simp add: ajaxOptions_eq Let_def mung_url ex_env_def ex_fetch_def)
  have d3: "determineBodyPromise ex_env ex_missing_response
              \<lparr>req_url = ''/missing'', req_method = ''GET''\<rparr>
              = (Resolved (JStr ''not here''),
                 [(''This response was unable to be parsed as json.'', JStr ''not here'')])"
    by (simp add: determineBodyPromise_def Let_def ex_defs)
  have o3: "\<not> ok ex_missing_response"
    by (simp add: ex_missing_response_def ex_response_def)
  have e3: "ajaxError ?ad ex_missing_response (JStr ''not here'')
              \<lparr>req_url = ''/missing'', req_method = ''GET''\<rparr> JUndefined
            = ex_adapter_error (JStr ''not here'')"
    by (simp add: ajaxError_def parseFetchResponseForError_def js_or_def ex_defs)
  from ajax_payload_handoff [OF triple_collapse f1 d1] o1
  have a1: "fst (ajax ex_env ?ad ''/count'' ''GET'' None [])
              = ajaxSuccess ?ad ex_count_response (JStr []) \<lparr>req_url = ''/count'', req_method = ''GET''\<rparr>"
    by simp
  from ajax_payload_handoff [OF triple_collapse f2 d2] o2
  have a2: "fst (ajax ex_env ?ad ''/widgets/1'' ''GET'' None [])
              = ajaxSuccess ?ad ex_widget_response (JObj [(''id'', JNum 1)])
                  \<lparr>req_url = ''/widgets/1'', req_method = ''GET''\<rparr>"
    by simp
  from ajax_payload_handoff [OF triple_collapse f3 d3] o3
  have a3: "fst (ajax ex_env ?ad ''/missing'' ''GET'' None [])
              = Rejected (ajaxError ?ad ex_missing_response (JStr ''not here'')
                            \<lparr>req_url = ''/missing'', req_method = ''GET''\<rparr> JUndefined)"
    by simp
  from f1 d1 o1 a1 s1 f2 d2 o2 a2 f3 d3 o3 a3 e3 show ?thesis
    by (simp only: rd simp_thms truthy.simps insert_iff)
qed

end
